theory Spec2Isabelle
  imports
    Main
    "HOL-Library.Multiset"
    "HOL-Library.Product_Lexorder"
    "HOL-Library.Monad_Syntax"
begin

section \<open>Data model\<close>

text \<open>
  The guestbook of \<^verbatim>\<open>src/main.py\<close> keeps one table, declared by
  \<^verbatim>\<open>fast_app("data/guestbook.db", id=int, name=str, message=str, timestamp=str, pk="id")\<close>.
  A row is a record of these four columns (the column \<^verbatim>\<open>id\<close> is the field
  \<open>msg_id\<close>, since \<open>id\<close> is the identity function of HOL). Strings are lists of
  8-bit characters; text outside ASCII is written as its UTF-8 bytes.
\<close>

record Message =
  msg_id :: int
  name :: string
  message :: string
  timestamp :: string

text \<open>
  The civil fields of a Python \<^verbatim>\<open>datetime\<close>. The value of
  \<^verbatim>\<open>datetime.now(pytz.timezone("US/Pacific"))\<close> also carries its zone, which the
  format \<^verbatim>\<open>TIMESTAMP_FMT\<close> never prints.
\<close>

record datetime =
  year :: nat
  month :: nat
  day :: nat
  hour :: nat
  minute :: nat
  second :: nat
  microsecond :: nat

text \<open>The two exceptions the functions below can raise.\<close>

datatype error = ValueError | TypeError

text \<open>
  A row as a table hands it out: a dictionary of the columns, or an instance of the
  dataclass of the table. \<^verbatim>\<open>fast_app\<close> returns the table together with its dataclass
  (\<^verbatim>\<open>app, rt, messages, Message = fast_app(...)\<close>), and a table that has its dataclass
  returns its rows as instances of it; the class is called \<^verbatim>\<open>Items\<close> after the table.
  A dictionary can be subscripted, \<^verbatim>\<open>x["timestamp"]\<close>; such an instance cannot, the
  subscript raises TypeError.
\<close>

datatype row = Dict Message | Items Message

fun subscript :: "row \<Rightarrow> (Message \<Rightarrow> 'a) \<Rightarrow> error + 'a" where
  "subscript (Dict d) key = Inr (key d)"
| "subscript (Items i) key = Inl TypeError"

text \<open>
  The process-wide state the handlers see: the rows stored in the table, in the order the
  table returns them, and the reading of the wall clock in the zone US/Pacific, which the
  environment changes between requests.
\<close>

record world =
  table :: "Message list"
  wall_clock :: datetime

text \<open>
  \<^verbatim>\<open>list(messages())\<close> for the table \<^verbatim>\<open>messages\<close> that \<^verbatim>\<open>fast_app\<close> returned: the
  stored rows, each as an instance of the dataclass.
\<close>

definition messages_table :: "world \<Rightarrow> row list" where
  "messages_table w = map Items (table w)"

section \<open>Constants\<close>

definition MAX_NAME_CHAR :: nat where
  "MAX_NAME_CHAR = 15"

definition MAX_MESSAGE_CHAR :: nat where
  "MAX_MESSAGE_CHAR = 50"

section \<open>Calendar\<close>

definition is_leap :: "nat \<Rightarrow> bool" where
  "is_leap y = (y mod 4 = 0 \<and> (if y mod 100 = 0 then y mod 400 = 0 else True))"

definition days_in_month :: "nat \<Rightarrow> nat \<Rightarrow> nat" where
  "days_in_month y m =
     (if m = 2 then (if is_leap y then 29 else 28)
      else if m = 4 \<or> m = 6 \<or> m = 9 \<or> m = 11 then 30
      else 31)"

text \<open>The ranges the constructor of \<^verbatim>\<open>datetime\<close> accepts (it raises ValueError outside).\<close>

definition valid_datetime :: "datetime \<Rightarrow> bool" where
  "valid_datetime dt =
     (1 \<le> year dt \<and> year dt \<le> 9999 \<and> 1 \<le> month dt \<and> month dt \<le> 12 \<and>
      1 \<le> day dt \<and> day dt \<le> days_in_month (year dt) (month dt) \<and>
      hour dt < 24 \<and> minute dt < 60 \<and> second dt < 60 \<and> microsecond dt < 1000000)"

text \<open>
  Two naive datetimes compare field by field, the year first: the order of these tuples
  (the lexicographic order on products).
\<close>

definition dt_tuple :: "datetime \<Rightarrow> nat \<times> nat \<times> nat \<times> nat \<times> nat \<times> nat \<times> nat" where
  "dt_tuple dt =
     (year dt, month dt, day dt, hour dt, minute dt, second dt, microsecond dt)"

section \<open>Formatting a time: strftime under TIMESTAMP_FMT\<close>

text \<open>
  \<^verbatim>\<open>TIMESTAMP_FMT = "%Y-%m-%d %I:%M:%S %p PST"\<close>. The directives, in the C locale:
  \<^verbatim>\<open>%Y\<close> the year in four digits (for a year under 1000 the padding depends on the
  platform; no theorem below uses such a year), \<^verbatim>\<open>%m %d %M %S\<close> two digits,
  \<^verbatim>\<open>%I\<close> the hour of the 12-hour clock in two digits (01 to 12),
  \<^verbatim>\<open>%p\<close> AM or PM; the rest of the format, the label PST included, is copied.
\<close>

definition digit_char :: "nat \<Rightarrow> char" where
  "digit_char n = char_of (48 + n)"

definition pad2 :: "nat \<Rightarrow> string" where
  "pad2 n = [digit_char (n div 10), digit_char (n mod 10)]"

definition pad4 :: "nat \<Rightarrow> string" where
  "pad4 n =
     [digit_char (n div 1000), digit_char (n div 100 mod 10),
      digit_char (n div 10 mod 10), digit_char (n mod 10)]"

definition hour12 :: "nat \<Rightarrow> nat" where
  "hour12 h = (if h mod 12 = 0 then 12 else h mod 12)"

definition am_pm :: "nat \<Rightarrow> string" where
  "am_pm h = (if h < 12 then ''AM'' else ''PM'')"

definition strftime :: "datetime \<Rightarrow> string" where
  "strftime dt =
     pad4 (year dt) @ ''-'' @ pad2 (month dt) @ ''-'' @ pad2 (day dt) @ '' '' @
     pad2 (hour12 (hour dt)) @ '':'' @ pad2 (minute dt) @ '':'' @ pad2 (second dt) @
     '' '' @ am_pm (hour dt) @ '' PST''"

section \<open>Parsing a time: strptime under TIMESTAMP_FMT\<close>

text \<open>
  \<^verbatim>\<open>datetime.strptime(s, TIMESTAMP_FMT)\<close> turns the format into a regular expression,
  matched case-insensitively from the start of \<open>s\<close> (CPython 3.12,
  \<^verbatim>\<open>Lib/_strptime.py\<close>):
  \<^item> \<^verbatim>\<open>%Y\<close> is \<^verbatim>\<open>\d\d\d\d\<close>;
  \<^item> \<^verbatim>\<open>%m\<close> and \<^verbatim>\<open>%I\<close> are \<^verbatim>\<open>1[0-2]|0[1-9]|[1-9]\<close>;
  \<^item> \<^verbatim>\<open>%d\<close> is \<^verbatim>\<open>3[0-1]|[1-2]\d|0[1-9]|[1-9]| [1-9]\<close>;
  \<^item> \<^verbatim>\<open>%M\<close> is \<^verbatim>\<open>[0-5]\d|\d\<close> and \<^verbatim>\<open>%S\<close> is \<^verbatim>\<open>6[0-1]|[0-5]\d|\d\<close>;
  \<^item> \<^verbatim>\<open>%p\<close> is \<^verbatim>\<open>am|pm\<close>;
  \<^item> each blank of the format is \<^verbatim>\<open>\s+\<close>, every other character is itself.

  It raises ValueError when the expression does not match, when text remains after the
  match, and when the fields are no date (the 30th of February, second 60 or 61, year 0).
  In this format a digit field is always followed by a character that is no digit, and a
  run of blanks by one that is no blank, so the first alternative that matches is the
  only one that can lead to a match: the parser below tries the alternatives in the
  order of the expression and keeps the first.

  Digits, blanks and letters are the ASCII ones, and on a string of ASCII characters the
  parser below accepts what CPython accepts, with the same result. CPython also accepts
  the digits and blanks of other scripts and the long s (U+017F) for the S of PST; a
  string with such a character is rejected here.
\<close>

definition is_digit :: "char \<Rightarrow> bool" where
  "is_digit c = (48 \<le> (of_char c :: nat) \<and> (of_char c :: nat) \<le> 57)"

definition digit_val :: "char \<Rightarrow> nat" where
  "digit_val c = of_char c - 48"

definition is_space :: "char \<Rightarrow> bool" where
  "is_space c =
     (let n = (of_char c :: nat) in (9 \<le> n \<and> n \<le> 13) \<or> (28 \<le> n \<and> n \<le> 32))"

definition to_lower :: "char \<Rightarrow> char" where
  "to_lower c =
     (let n = (of_char c :: nat) in if 65 \<le> n \<and> n \<le> 90 then char_of (n + 32) else c)"

fun two_digits :: "(nat \<Rightarrow> nat \<Rightarrow> bool) \<Rightarrow> string \<Rightarrow> (nat \<times> string) option" where
  "two_digits ok (a # b # rest) =
     (if is_digit a \<and> is_digit b \<and> ok (digit_val a) (digit_val b)
      then Some (10 * digit_val a + digit_val b, rest) else None)"
| "two_digits ok [a] = None"
| "two_digits ok [] = None"

fun one_digit :: "(nat \<Rightarrow> bool) \<Rightarrow> string \<Rightarrow> (nat \<times> string) option" where
  "one_digit ok (a # rest) =
     (if is_digit a \<and> ok (digit_val a) then Some (digit_val a, rest) else None)"
| "one_digit ok [] = None"

definition orelse :: "'a option \<Rightarrow> 'a option \<Rightarrow> 'a option" where
  "orelse x y = (case x of Some v \<Rightarrow> Some v | None \<Rightarrow> y)"

fun re_Y :: "string \<Rightarrow> (nat \<times> string) option" where
  "re_Y (a # b # c # d # rest) =
     (if is_digit a \<and> is_digit b \<and> is_digit c \<and> is_digit d
      then Some (1000 * digit_val a + 100 * digit_val b + 10 * digit_val c + digit_val d, rest)
      else None)"
| "re_Y _ = None"

definition re_m :: "string \<Rightarrow> (nat \<times> string) option" where
  "re_m s =
     orelse (two_digits (\<lambda>a b. (a = 1 \<and> b \<le> 2) \<or> (a = 0 \<and> 1 \<le> b)) s)
            (one_digit (\<lambda>a. 1 \<le> a) s)"

definition re_d :: "string \<Rightarrow> (nat \<times> string) option" where
  "re_d s =
     orelse (two_digits (\<lambda>a b. (a = 3 \<and> b \<le> 1) \<or> (1 \<le> a \<and> a \<le> 2) \<or> (a = 0 \<and> 1 \<le> b)) s)
       (orelse (one_digit (\<lambda>a. 1 \<le> a) s)
          (case s of
             [] \<Rightarrow> None
           | c # rest \<Rightarrow> if c = CHR '' '' then one_digit (\<lambda>a. 1 \<le> a) rest else None))"

definition re_I :: "string \<Rightarrow> (nat \<times> string) option" where
  "re_I s =
     orelse (two_digits (\<lambda>a b. (a = 1 \<and> b \<le> 2) \<or> (a = 0 \<and> 1 \<le> b)) s)
            (one_digit (\<lambda>a. 1 \<le> a) s)"

definition re_M :: "string \<Rightarrow> (nat \<times> string) option" where
  "re_M s = orelse (two_digits (\<lambda>a b. a \<le> 5) s) (one_digit (\<lambda>a. True) s)"

definition re_S :: "string \<Rightarrow> (nat \<times> string) option" where
  "re_S s =
     orelse (two_digits (\<lambda>a b. (a = 6 \<and> b \<le> 1) \<or> a \<le> 5) s) (one_digit (\<lambda>a. True) s)"

definition re_spaces :: "string \<Rightarrow> string option" where
  "re_spaces s =
     (case s of
        [] \<Rightarrow> None
      | c # rest \<Rightarrow> if is_space c then Some (dropWhile is_space rest) else None)"

fun re_lit :: "string \<Rightarrow> string \<Rightarrow> string option" where
  "re_lit [] s = Some s"
| "re_lit (c # cs) [] = None"
| "re_lit (c # cs) (x # xs) = (if to_lower x = to_lower c then re_lit cs xs else None)"

text \<open>The result of \<^verbatim>\<open>%p\<close> is whether the text was pm.\<close>

definition re_p :: "string \<Rightarrow> (bool \<times> string) option" where
  "re_p s =
     (case re_lit ''am'' s of
        Some rest \<Rightarrow> Some (False, rest)
      | None \<Rightarrow> (case re_lit ''pm'' s of Some rest \<Rightarrow> Some (True, rest) | None \<Rightarrow> None))"

text \<open>
  The hour of the day from \<^verbatim>\<open>%I\<close> and \<^verbatim>\<open>%p\<close>: 12 am is hour 0, and pm adds 12
  to every hour but 12.
\<close>

definition hour24 :: "nat \<Rightarrow> bool \<Rightarrow> nat" where
  "hour24 h pm = (if pm then (if h = 12 then 12 else h + 12) else (if h = 12 then 0 else h))"

definition strptime :: "string \<Rightarrow> datetime option" where
  "strptime s = do {
     (Y, s1) \<leftarrow> re_Y s;
     s2 \<leftarrow> re_lit ''-'' s1;
     (m, s3) \<leftarrow> re_m s2;
     s4 \<leftarrow> re_lit ''-'' s3;
     (d, s5) \<leftarrow> re_d s4;
     s6 \<leftarrow> re_spaces s5;
     (I, s7) \<leftarrow> re_I s6;
     s8 \<leftarrow> re_lit '':'' s7;
     (M, s9) \<leftarrow> re_M s8;
     s10 \<leftarrow> re_lit '':'' s9;
     (S, s11) \<leftarrow> re_S s10;
     s12 \<leftarrow> re_spaces s11;
     (pm, s13) \<leftarrow> re_p s12;
     s14 \<leftarrow> re_spaces s13;
     s15 \<leftarrow> re_lit ''PST'' s14;
     (let dt = \<lparr>year = Y, month = m, day = d, hour = hour24 I pm, minute = M,
                 second = S, microsecond = 0\<rparr>
      in if s15 = [] \<and> valid_datetime dt then Some dt else None)
   }"

section \<open>The functions of main.py\<close>

text \<open>\<^verbatim>\<open>get_pst_time()\<close> reads the wall clock of the zone US/Pacific.\<close>

definition get_pst_time :: "world \<Rightarrow> datetime" where
  "get_pst_time w = wall_clock w"

text \<open>
  \<^verbatim>\<open>sorted(xs, key=f, reverse=True)\<close>: CPython reverses the list, sorts it stably by the
  key in ascending order and reverses the result, so that rows with equal keys keep the
  order they had in \<open>xs\<close>. \<open>sort_key\<close> is the stable insertion sort of HOL.
\<close>

definition sorted_reverse :: "('a \<Rightarrow> 'k::linorder) \<Rightarrow> 'a list \<Rightarrow> 'a list" where
  "sorted_reverse f xs = rev (sort_key f (rev xs))"

text \<open>
  The key of the sort, \<^verbatim>\<open>lambda x: datetime.strptime(x["timestamp"], TIMESTAMP_FMT)\<close>:
  the subscript comes first and raises TypeError on a row that is no dictionary; then
  \<^verbatim>\<open>strptime\<close> raises ValueError on a timestamp that does not parse.
\<close>

definition sort_key_of :: "row \<Rightarrow> error + datetime" where
  "sort_key_of x =
     (case subscript x timestamp of
        Inl e \<Rightarrow> Inl e
      | Inr ts \<Rightarrow> (case strptime ts of None \<Rightarrow> Inl ValueError | Some dt \<Rightarrow> Inr dt))"

text \<open>The first exception in a list of results, in the order of the list.\<close>

fun first_error :: "(error + 'a) list \<Rightarrow> error option" where
  "first_error [] = None"
| "first_error (Inl e # rs) = Some e"
| "first_error (Inr v # rs) = first_error rs"

text \<open>
  \<^verbatim>\<open>get_all_messages(messages_table)\<close>, on the rows \<^verbatim>\<open>list(messages_table())\<close>.
  \<^verbatim>\<open>sorted\<close> computes the key of every row, in the order of the list, before it
  compares any, so the first key that raises ends the whole call with its exception.
\<close>

definition get_all_messages :: "row list \<Rightarrow> error + row list" where
  "get_all_messages messages =
     (case first_error (map sort_key_of messages) of
        Some e \<Rightarrow> Inl e
      | None \<Rightarrow> Inr (sorted_reverse (\<lambda>x. dt_tuple (projr (sort_key_of x))) messages))"

section \<open>The table\<close>

text \<open>
  Modelled from the spec: the insert operation of the table is the storage library's
  (a SQLite table behind \<^verbatim>\<open>fast_app\<close>), which is not among the sources. The spec:
  the store "appends a new Message with a fresh id and the current formatted timestamp",
  the id being a "unique integer, assigned by the store on insertion (primary key,
  monotonic, never reused)", and it "accepts any string values passed to it". The fresh
  id is one more than the largest id of the table, and 1 in an empty table, as an integer
  primary key of SQLite is assigned; ids are unbounded integers here.
\<close>

definition next_id :: "Message list \<Rightarrow> int" where
  "next_id rows = (if rows = [] then 1 else Max (set (map msg_id rows)) + 1)"

definition table_insert :: "Message list \<Rightarrow> string \<Rightarrow> string \<Rightarrow> string \<Rightarrow> Message list" where
  "table_insert rows n m ts =
     rows @ [\<lparr>msg_id = next_id rows, name = n, message = m, timestamp = ts\<rparr>]"

text \<open>\<^verbatim>\<open>add_message(messages_table, name, message)\<close>.\<close>

definition add_message :: "world \<Rightarrow> string \<Rightarrow> string \<Rightarrow> world" where
  "add_message w n m =
     w\<lparr>table := table_insert (table w) n m (strftime (get_pst_time w))\<rparr>"

section \<open>View fragments\<close>

text \<open>
  An element of the page library is a tag with its children and its attributes; a child
  that is a Python string is a text node. A keyword argument becomes an attribute under
  the name \<open>attrmap\<close> gives it: \<^verbatim>\<open>cls\<close> is \<^verbatim>\<open>class\<close>, \<^verbatim>\<open>fr\<close> is
  \<^verbatim>\<open>for\<close>, and an underscore is a hyphen (\<^verbatim>\<open>hx_get\<close> is \<^verbatim>\<open>hx-get\<close>).
  Attributes the library adds by default to some tags are left out.
\<close>

datatype attr_value = AStr string | ABool bool

datatype FT = Tag string "FT list" "(string \<times> attr_value) list" | Text string

definition attrmap :: "string \<Rightarrow> string" where
  "attrmap k =
     (if k = ''cls'' then ''class''
      else if k = ''fr'' then ''for''
      else map (\<lambda>c. if c = CHR ''_'' then CHR ''-'' else c) k)"

definition ft_hx :: "string \<Rightarrow> FT list \<Rightarrow> (string \<times> attr_value) list \<Rightarrow> FT" where
  "ft_hx tag cs kw = Tag tag cs (map (\<lambda>(k, v). (attrmap k, v)) kw)"

definition Div :: "FT list \<Rightarrow> (string \<times> attr_value) list \<Rightarrow> FT" where
  "Div = ft_hx ''div''"

definition P :: "FT list \<Rightarrow> (string \<times> attr_value) list \<Rightarrow> FT" where
  "P = ft_hx ''p''"

definition Span :: "FT list \<Rightarrow> (string \<times> attr_value) list \<Rightarrow> FT" where
  "Span = ft_hx ''span''"

definition Small :: "FT list \<Rightarrow> (string \<times> attr_value) list \<Rightarrow> FT" where
  "Small = ft_hx ''small''"

definition Form :: "FT list \<Rightarrow> (string \<times> attr_value) list \<Rightarrow> FT" where
  "Form = ft_hx ''form''"

definition Label :: "FT list \<Rightarrow> (string \<times> attr_value) list \<Rightarrow> FT" where
  "Label = ft_hx ''label''"

definition Input :: "FT list \<Rightarrow> (string \<times> attr_value) list \<Rightarrow> FT" where
  "Input = ft_hx ''input''"

definition Button :: "FT list \<Rightarrow> (string \<times> attr_value) list \<Rightarrow> FT" where
  "Button = ft_hx ''button''"

definition A :: "FT list \<Rightarrow> (string \<times> attr_value) list \<Rightarrow> FT" where
  "A = ft_hx ''a''"

definition H1 :: "FT list \<Rightarrow> (string \<times> attr_value) list \<Rightarrow> FT" where
  "H1 = ft_hx ''h1''"

definition H2 :: "FT list \<Rightarrow> (string \<times> attr_value) list \<Rightarrow> FT" where
  "H2 = ft_hx ''h2''"

definition Title :: "FT list \<Rightarrow> (string \<times> attr_value) list \<Rightarrow> FT" where
  "Title = ft_hx ''title''"

definition Main_tag :: "FT list \<Rightarrow> (string \<times> attr_value) list \<Rightarrow> FT" where
  "Main_tag = ft_hx ''main''"

text \<open>\<^verbatim>\<open>str(n)\<close> of a natural number: its decimal digits.\<close>

fun str_nat :: "nat \<Rightarrow> string" where
  "str_nat n = (if n < 10 then [digit_char n] else str_nat (n div 10) @ [digit_char (n mod 10)])"

declare str_nat.simps [simp del]

text \<open>\<^verbatim>\<open>create_message_list(messages)\<close>.\<close>

definition create_message_list :: "Message list \<Rightarrow> FT" where
  "create_message_list messages =
     (if messages = [] then
        Div [P [Text ''No messages yet. Be the first to say hi!''] []]
          [(''id'', AStr ''message-list''), (''cls'', AStr ''empty-state'')]
      else
        Div
          (map (\<lambda>msg.
             Div
               [Div
                  [Span [Text (name msg @ '': '')] [(''cls'', AStr ''message-name'')],
                   Span [Text (message msg)] [(''cls'', AStr ''message-text'')],
                   Small [Text (timestamp msg)] [(''cls'', AStr ''message-timestamp'')]]
                  [(''cls'', AStr ''message-content'')]]
               [(''cls'', AStr ''message'')])
             messages)
          [(''id'', AStr ''message-list''), (''cls'', AStr ''message-list'')])"

text \<open>
  \<^verbatim>\<open>create_guest_counter(count)\<close>; the text of the emoji span is the waving hand
  (U+1F44B) in UTF-8.
\<close>

definition create_guest_counter :: "nat \<Rightarrow> FT" where
  "create_guest_counter n =
     Div
       [Text (str_nat n @ '' guests have said hi so far ''),
        Span [Text [CHR 0xF0, CHR 0x9F, CHR 0x91, CHR 0x8B]] [(''cls'', AStr ''emoji'')]]
       [(''id'', AStr ''guest-counter''), (''cls'', AStr ''guest-counter'')]"

section \<open>Request handlers\<close>

text \<open>
  A handler takes the world and returns the world it leaves and its response, or the
  exception that ends the request. The handler of \<^verbatim>\<open>GET /\<close> returns the pair of the
  title and the main element. Each handler reads the table \<^verbatim>\<open>messages\<close> of
  \<^verbatim>\<open>fast_app\<close>.

  \<^verbatim>\<open>create_message_list\<close> subscripts every row it is given, the first row first;
  \<open>dicts_of\<close> is these subscripts: TypeError at the first row that is no dictionary,
  and otherwise the dictionaries, which \<open>create_message_list\<close> reads.
\<close>

fun dicts_of :: "row list \<Rightarrow> error + Message list" where
  "dicts_of [] = Inr []"
| "dicts_of (x # xs) =
     (case subscript x (\<lambda>d. d) of
        Inl e \<Rightarrow> Inl e
      | Inr d \<Rightarrow> (case dicts_of xs of Inl e \<Rightarrow> Inl e | Inr ds \<Rightarrow> Inr (d # ds)))"

definition get :: "world \<Rightarrow> world \<times> (error + FT list)" where
  "get w =
     (case get_all_messages (messages_table w) of
        Inl e \<Rightarrow> (w, Inl e)
      | Inr all_messages \<Rightarrow>
        (case dicts_of all_messages of
           Inl e \<Rightarrow> (w, Inl e)
         | Inr dicts \<Rightarrow>
          (let guest_counter = create_guest_counter (length all_messages);
               message_list = create_message_list dicts;
               form =
                 Form
                   [Div
                      [Div
                         [Label [Text ''Name:''] [(''fr'', AStr ''name'')],
                          Div
                            [Input []
                               [(''type'', AStr ''text''), (''id'', AStr ''name''),
                                (''name'', AStr ''name''), (''required'', ABool True),
                                (''placeholder'', AStr ''Enter your name''),
                                (''maxlength'', AStr (str_nat MAX_NAME_CHAR)),
                                (''oninput'',
                                 AStr (''updateCharCount('name', 'nameCount', '' @
                                       str_nat MAX_NAME_CHAR @ '')''))],
                             Span [] [(''id'', AStr ''nameCount''), (''cls'', AStr ''char-count'')]]
                            [(''cls'', AStr ''input-with-counter'')]]
                         [(''cls'', AStr ''input-wrapper'')],
                       Div
                         [Label [Text ''Message:''] [(''fr'', AStr ''message'')],
                          Div
                            [Input []
                               [(''type'', AStr ''text''), (''id'', AStr ''message''),
                                (''name'', AStr ''message''), (''required'', ABool True),
                                (''placeholder'', AStr ''Enter your message''),
                                (''maxlength'', AStr (str_nat MAX_MESSAGE_CHAR)),
                                (''oninput'',
                                 AStr (''updateCharCount('message', 'messageCount', '' @
                                       str_nat MAX_MESSAGE_CHAR @ '')''))],
                             Span [] [(''id'', AStr ''messageCount''), (''cls'', AStr ''char-count'')]]
                            [(''cls'', AStr ''input-with-counter'')]]
                         [(''cls'', AStr ''input-wrapper'')]]
                      [(''cls'', AStr ''input-group'')],
                    Button [Text ''Submit''] [(''type'', AStr ''submit'')]]
                   [(''id'', AStr ''message-form''), (''hx_post'', AStr ''/submit-message''),
                    (''hx_target'', AStr ''#update-area''), (''hx_swap'', AStr ''innerHTML'')];
               footer =
                 Div
                   [Text (''made with '' @
                          [CHR 0xE2, CHR 0x9D, CHR 0xA4, CHR 0xEF, CHR 0xB8, CHR 0x8F] @ '' by ''),
                    A [Text ''author'']
                      [(''href'', AStr ''https://x.com/author''), (''target'', AStr ''_blank'')]]
                   [(''cls'', AStr ''footer'')]
           in (w,
               Inr
                 [Title [Text ''Simple Guestbook''] [],
                  Main_tag
                    [H1 [Text ([CHR 0xE2, CHR 0x9C, CHR 0x8D, CHR 0xEF, CHR 0xB8, CHR 0x8F] @
                               '' Guestbook'')] [],
                     form,
                     H2 [Text ([CHR 0xF0, CHR 0x9F, CHR 0xAA, CHR 0xB5] @ '' log'')] [],
                     Div [guest_counter, message_list]
                       [(''id'', AStr ''update-area''), (''hx_get'', AStr ''/update-messages''),
                        (''hx_trigger'', AStr ''every 10s'')],
                     footer]
                    []]))))"

text \<open>
  \<^verbatim>\<open>post(name, message)\<close>, the handler of \<^verbatim>\<open>POST /submit-message\<close>: the insert comes
  first, so the row stays in the table when the read after it raises.
\<close>

definition post :: "world \<Rightarrow> string \<Rightarrow> string \<Rightarrow> world \<times> (error + FT)" where
  "post w n m =
     (let w' = add_message w n m
      in case get_all_messages (messages_table w') of
           Inl e \<Rightarrow> (w', Inl e)
         | Inr all_messages \<Rightarrow>
           (case dicts_of all_messages of
              Inl e \<Rightarrow> (w', Inl e)
            | Inr dicts \<Rightarrow>
             (let guest_counter = create_guest_counter (length all_messages);
                  message_list = create_message_list dicts
              in (w',
                  Inr (Div [guest_counter, message_list]
                         [(''id'', AStr ''update-area''), (''hx_get'', AStr ''/update-messages''),
                          (''hx_trigger'', AStr ''every 10s'')])))))"

text \<open>\<^verbatim>\<open>get_update_messages()\<close>, the handler of \<^verbatim>\<open>GET /update-messages\<close>.\<close>

definition get_update_messages :: "world \<Rightarrow> world \<times> (error + FT)" where
  "get_update_messages w =
     (case get_all_messages (messages_table w) of
        Inl e \<Rightarrow> (w, Inl e)
      | Inr all_messages \<Rightarrow>
        (case dicts_of all_messages of
           Inl e \<Rightarrow> (w, Inl e)
         | Inr dicts \<Rightarrow>
          (let guest_counter = create_guest_counter (length all_messages);
               message_list = create_message_list dicts
           in (w,
               Inr (Div [guest_counter, message_list]
                      [(''id'', AStr ''update-area''), (''hx_get'', AStr ''/update-messages''),
                       (''hx_trigger'', AStr ''every 10s'')])))))"

section \<open>Serialising a fragment\<close>

text \<open>
  Modelled from the spec: the serialiser that turns an element into the HTML of the
  response belongs to the page library and is not among the sources. The spec: the list
  is rendered "with \<^verbatim>\<open>name\<close> and \<^verbatim>\<open>message\<close> escaped for safe HTML embedding",
  so that "the literal tag characters are escaped, not executed as markup". A text node is
  written through \<open>html_escape\<close>, which replaces the five characters
  \<^verbatim>\<open>& < > " '\<close> as \<^verbatim>\<open>html.escape\<close> of Python does; an element is written as its
  start tag with its attributes, its children and its end tag, without indentation.
\<close>

definition escape_char :: "char \<Rightarrow> string" where
  "escape_char c =
     (if c = CHR ''&'' then ''&amp;''
      else if c = CHR ''<'' then ''&lt;''
      else if c = CHR ''>'' then ''&gt;''
      else if c = CHR 0x22 then ''&quot;''
      else if c = CHR 0x27 then ''&#x27;''
      else [c])"

definition html_escape :: "string \<Rightarrow> string" where
  "html_escape s = concat (map escape_char s)"

definition to_attr :: "string \<times> attr_value \<Rightarrow> string" where
  "to_attr kv =
     (case snd kv of
        AStr v \<Rightarrow> '' '' @ fst kv @ [CHR ''='', CHR 0x22] @ html_escape v @ [CHR 0x22]
      | ABool b \<Rightarrow> if b then '' '' @ fst kv else [])"

fun to_xml :: "FT \<Rightarrow> string" where
  "to_xml (Text s) = html_escape s"
| "to_xml (Tag tag cs attrs) =
     ''<'' @ tag @ concat (map to_attr attrs) @ ''>'' @ concat (map to_xml cs) @
     ''</'' @ tag @ ''>''"

section \<open>Observations and example inputs\<close>

text \<open>The children of an element, and the text nodes of a fragment in document order.\<close>

fun children :: "FT \<Rightarrow> FT list" where
  "children (Tag tag cs attrs) = cs"
| "children (Text s) = []"

fun texts :: "FT \<Rightarrow> string list" where
  "texts (Text s) = [s]"
| "texts (Tag tag cs attrs) = concat (map texts cs)"

text \<open>
  A string against a picture of the timestamp: \<open>d\<close> in the picture stands for a digit,
  \<open>?\<close> for the letter A or P, every other character for itself.
\<close>

fun matches :: "string \<Rightarrow> string \<Rightarrow> bool" where
  "matches [] [] = True"
| "matches (p # ps) (c # cs) =
     ((if p = CHR ''d'' then is_digit c
       else if p = CHR ''?'' then c = CHR ''A'' \<or> c = CHR ''P''
       else c = p) \<and> matches ps cs)"
| "matches [] (c # cs) = False"
| "matches (p # ps) [] = False"

definition timestamp_shape :: "string \<Rightarrow> bool" where
  "timestamp_shape s = matches ''dddd-dd-dd dd:dd:dd ?M PST'' s"

text \<open>
  A run of submissions: before each call of \<open>add_message\<close> the environment sets the
  clock to the time of the request.
\<close>

fun insert_all :: "world \<Rightarrow> (datetime \<times> string \<times> string) list \<Rightarrow> world" where
  "insert_all w [] = w"
| "insert_all w ((t, n, m) # reqs) = insert_all (add_message (w\<lparr>wall_clock := t\<rparr>) n m) reqs"

text \<open>Every timestamp of the table parses: the table holds only what this program wrote.\<close>

definition well_stamped :: "Message list \<Rightarrow> bool" where
  "well_stamped rows = list_all (\<lambda>x. strptime (timestamp x) \<noteq> None) rows"

definition ex_time :: datetime where
  "ex_time = \<lparr>year = 2024, month = 11, day = 5, hour = 14, minute = 30, second = 7,
              microsecond = 250000\<rparr>"

definition ex_row :: Message where
  "ex_row = \<lparr>msg_id = 1, name = ''Ann'', message = ''hi'',
             timestamp = ''2024-11-05 09:00:00 AM PST''\<rparr>"

definition ex_world :: world where
  "ex_world = \<lparr>table = [ex_row], wall_clock = ex_time\<rparr>"

definition ex_bad_world :: world where
  "ex_bad_world = \<lparr>table = [ex_row, ex_row\<lparr>msg_id := 2, timestamp := ''yesterday''\<rparr>],
                    wall_clock = ex_time\<rparr>"

text \<open>An empty guestbook, and three submissions in different seconds.\<close>

definition ex_empty_world :: world where
  "ex_empty_world = \<lparr>table = [], wall_clock = ex_time\<rparr>"

definition ex_reqs :: "(datetime \<times> string \<times> string) list" where
  "ex_reqs =
     [(ex_time, ''Ann'', ''one''),
      (ex_time\<lparr>second := 8\<rparr>, ''Bob'', ''two''),
      (ex_time\<lparr>minute := 31\<rparr>, ''Cy'', ''three'')]"

definition ex_script_row :: Message where
  "ex_script_row = \<lparr>msg_id = 1, name = ''<script>alert(1)</script>'', message = ''hi'',
                    timestamp = ''2024-11-05 09:00:00 AM PST''\<rparr>"

section \<open>Digits and fields\<close>

lemma digit_char_props:
  assumes "n < 10"
  shows "is_digit (digit_char n)" and "digit_val (digit_char n) = n"
    and "\<not> is_space (digit_char n)"
  using assms by (simp_all add: is_digit_def digit_val_def digit_char_def is_space_def)

lemma two_digits_pad2:
  assumes "n < 100" and "ok (n div 10) (n mod 10)"
  shows "two_digits ok (pad2 n @ r) = Some (n, r)"
proof -
  have "n div 10 < 10" using assms(1) by simp
  moreover have "n mod 10 < 10" by simp
  ultimately show ?thesis
    using assms(2) by (simp add: pad2_def digit_char_props)
qed

lemma decimal_digits4:
  fixes y :: nat
  shows "1000 * (y div 1000) + 100 * (y div 100 mod 10) + 10 * (y div 10 mod 10) + y mod 10 = y"
proof -
  have d1: "y = 10 * (y div 10) + y mod 10" by simp
  have d2: "y div 10 = 10 * (y div 100) + y div 10 mod 10"
    using div_mult2_eq [of y 10 10] by simp
  have d3: "y div 100 = 10 * (y div 1000) + y div 100 mod 10"
    using div_mult2_eq [of y 100 10] by simp
  show ?thesis using d1 d2 d3 by linarith
qed

lemma re_Y_pad4:
  assumes "y < 10000"
  shows "re_Y (pad4 y @ r) = Some (y, r)"
proof -
  have a: "y div 1000 < 10" using assms by simp
  show ?thesis
    using a decimal_digits4 [of y] by (simp add: pad4_def digit_char_props)
qed

lemma tens_units_12:
  assumes "1 \<le> (n::nat)" and "n \<le> 12"
  shows "(n div 10 = 1 \<and> n mod 10 \<le> 2) \<or> (n div 10 = 0 \<and> 1 \<le> n mod 10)"
  using assms by presburger

lemma re_m_pad2:
  assumes "1 \<le> n" and "n \<le> 12"
  shows "re_m (pad2 n @ r) = Some (n, r)"
  using assms tens_units_12 [OF assms]
  by (simp add: re_m_def orelse_def two_digits_pad2)

lemma re_I_pad2:
  assumes "1 \<le> n" and "n \<le> 12"
  shows "re_I (pad2 n @ r) = Some (n, r)"
  using assms tens_units_12 [OF assms]
  by (simp add: re_I_def orelse_def two_digits_pad2)

lemma tens_units_31:
  assumes "1 \<le> (n::nat)" and "n \<le> 31"
  shows "(n div 10 = 3 \<and> n mod 10 \<le> 1) \<or> (1 \<le> n div 10 \<and> n div 10 \<le> 2) \<or>
         (n div 10 = 0 \<and> 1 \<le> n mod 10)"
  using assms by presburger

lemma re_d_pad2:
  assumes "1 \<le> n" and "n \<le> 31"
  shows "re_d (pad2 n @ r) = Some (n, r)"
  using assms tens_units_31 [OF assms]
  by (simp add: re_d_def orelse_def two_digits_pad2)

lemma re_M_pad2:
  assumes "n < 60"
  shows "re_M (pad2 n @ r) = Some (n, r)"
proof -
  have "n div 10 \<le> 5" using assms by simp
  then show ?thesis using assms by (simp add: re_M_def orelse_def two_digits_pad2)
qed

lemma re_S_pad2:
  assumes "n < 60"
  shows "re_S (pad2 n @ r) = Some (n, r)"
proof -
  have "n div 10 \<le> 5" using assms by simp
  then show ?thesis using assms by (simp add: re_S_def orelse_def two_digits_pad2)
qed

lemma re_spaces_pad2:
  assumes "n < 100"
  shows "re_spaces (CHR '' '' # pad2 n @ r) = Some (pad2 n @ r)"
proof -
  have "n div 10 < 10" using assms by simp
  then have "\<not> is_space (digit_char (n div 10))" by (rule digit_char_props)
  moreover have "is_space (CHR '' '')" by (simp add: is_space_def)
  ultimately show ?thesis by (simp add: re_spaces_def pad2_def)
qed

lemma to_lower_am_pm:
  "to_lower (CHR ''A'') = CHR ''a''" "to_lower (CHR ''M'') = CHR ''m''"
  "to_lower (CHR ''P'') = CHR ''p''" "to_lower (CHR ''a'') = CHR ''a''"
  "to_lower (CHR ''m'') = CHR ''m''" "to_lower (CHR ''p'') = CHR ''p''"
  by code_simp+

lemma re_p_am_pm: "re_p (am_pm h @ r) = Some (12 \<le> h, r)"
  by (auto simp add: re_p_def am_pm_def to_lower_am_pm)

lemma re_spaces_am_pm: "re_spaces (CHR '' '' # am_pm h @ r) = Some (am_pm h @ r)"
  by (simp add: re_spaces_def am_pm_def is_space_def)

lemma re_spaces_PST: "re_spaces (CHR '' '' # CHR ''P'' # r) = Some (CHR ''P'' # r)"
  by (simp add: re_spaces_def is_space_def)

lemma hour12_range: "1 \<le> hour12 h \<and> hour12 h \<le> 12"
proof -
  have "h mod 12 < 12" by simp
  then show ?thesis by (simp add: hour12_def)
qed

lemma hour24_hour12:
  assumes "h < 24"
  shows "hour24 (hour12 h) (12 \<le> h) = h"
proof (cases "h < 12")
  case True
  then show ?thesis by (simp add: hour24_def hour12_def)
next
  case False
  then have "h mod 12 = h - 12" using assms by (simp add: mod_if)
  moreover have "h - 12 < 12" "12 \<le> h" using False assms by arith+
  ultimately show ?thesis by (auto simp add: hour24_def hour12_def)
qed

lemma days_in_month_le: "days_in_month y m \<le> 31"
  by (simp add: days_in_month_def)

text \<open>
  What \<open>strftime\<close> writes, \<open>strptime\<close> reads back: the time of the clock without
  its microseconds.
\<close>

lemma strptime_strftime:
  assumes v: "valid_datetime dt" and y: "1000 \<le> year dt"
  shows "strptime (strftime dt) = Some (dt\<lparr>microsecond := 0\<rparr>)"
proof -
  from v have Y: "year dt < 10000" and m: "1 \<le> month dt" "month dt \<le> 12"
    and d: "1 \<le> day dt" "day dt \<le> 31" and h: "hour dt < 24"
    and M: "minute dt < 60" and S: "second dt < 60"
    using days_in_month_le [of "year dt" "month dt"] by (simp_all add: valid_datetime_def)
  have I: "1 \<le> hour12 (hour dt)" "hour12 (hour dt) \<le> 12" "hour12 (hour dt) < 100"
    using hour12_range [of "hour dt"] by simp_all
  have v': "valid_datetime \<lparr>year = year dt, month = month dt, day = day dt, hour = hour dt,
      minute = minute dt, second = second dt, microsecond = 0\<rparr>"
    using v by (simp add: valid_datetime_def)
  show ?thesis
    unfolding strptime_def strftime_def
    using Y m d h M S I v'
    by (simp add: re_Y_pad4 re_m_pad2 re_d_pad2 re_I_pad2 re_M_pad2 re_S_pad2
        re_spaces_pad2 re_spaces_am_pm re_spaces_PST re_p_am_pm hour24_hour12)
qed

section \<open>Example values\<close>

lemma digit_char_numerals:
  "digit_char 0 = CHR ''0''" "digit_char 1 = CHR ''1''" "digit_char 2 = CHR ''2''"
  "digit_char 3 = CHR ''3''" "digit_char 4 = CHR ''4''" "digit_char 5 = CHR ''5''"
  "digit_char 6 = CHR ''6''" "digit_char 7 = CHR ''7''" "digit_char 8 = CHR ''8''"
  "digit_char 9 = CHR ''9''" "digit_char (Suc 0) = CHR ''1''"
  by code_simp+

lemmas strftime_defs = strftime_def pad2_def pad4_def hour12_def am_pm_def digit_char_numerals

lemma strftime_ex_time: "strftime ex_time = ''2024-11-05 02:30:07 PM PST''"
  by (simp add: ex_time_def strftime_defs)

lemma valid_ex_time: "valid_datetime ex_time" "1000 \<le> year ex_time"
  by (simp_all add: ex_time_def valid_datetime_def days_in_month_def)

lemma strptime_ex_row:
  "strptime (timestamp ex_row) =
     Some \<lparr>year = 2024, month = 11, day = 5, hour = 9, minute = 0, second = 0, microsecond = 0\<rparr>"
proof -
  let ?dt = "\<lparr>year = 2024, month = 11, day = 5, hour = 9, minute = 0, second = 0,
              microsecond = 0\<rparr>"
  have "strftime ?dt = timestamp ex_row" by (simp add: ex_row_def strftime_defs)
  moreover have "valid_datetime ?dt" by (simp add: valid_datetime_def days_in_month_def)
  ultimately show ?thesis using strptime_strftime [of ?dt] by simp
qed

lemma strptime_yesterday: "strptime ''yesterday'' = None"
  by code_simp

section \<open>Reading and writing the table\<close>

lemma mset_sorted_reverse: "mset (sorted_reverse f xs) = mset xs"
  by (simp add: sorted_reverse_def)

lemma length_sorted_reverse: "length (sorted_reverse f xs) = length xs"
  by (simp add: sorted_reverse_def)

lemma sort_key_of_Dict:
  "sort_key_of (Dict d) =
     (case strptime (timestamp d) of None \<Rightarrow> Inl ValueError | Some dt \<Rightarrow> Inr dt)"
  by (simp add: sort_key_of_def)

lemma sort_key_of_Items: "sort_key_of (Items i) = Inl TypeError"
  by (simp add: sort_key_of_def)

lemma well_stamped_iff: "well_stamped rows \<longleftrightarrow> (\<forall>x \<in> set rows. strptime (timestamp x) \<noteq> None)"
  by (simp add: well_stamped_def list_all_iff)

lemma first_error_Dict:
  "first_error (map sort_key_of (map Dict ms)) =
     (if well_stamped ms then None else Some ValueError)"
proof (induction ms)
  case Nil
  show ?case by (simp add: well_stamped_def)
next
  case (Cons d ms)
  show ?case
  proof (cases "strptime (timestamp d)")
    case None
    then show ?thesis by (simp add: sort_key_of_Dict well_stamped_def)
  next
    case (Some dt)
    then show ?thesis using Cons.IH by (simp add: sort_key_of_Dict well_stamped_def)
  qed
qed

lemma first_error_raises:
  assumes "r \<in> set rs" and "r = Inl e"
  shows "first_error rs \<noteq> None"
  using assms
proof (induction rs)
  case Nil
  then show ?case by simp
next
  case (Cons a rs)
  then show ?case by (cases a) auto
qed

lemma get_all_messages_Items:
  "get_all_messages (map Items ms) = (if ms = [] then Inr [] else Inl TypeError)"
  by (cases ms) (simp_all add: get_all_messages_def sort_key_of_Items sorted_reverse_def)

lemma get_all_messages_table:
  "get_all_messages (messages_table w) = (if table w = [] then Inr [] else Inl TypeError)"
  by (simp add: messages_table_def get_all_messages_Items)

lemma get_all_messages_Dict:
  "get_all_messages (map Dict ms) =
     (if well_stamped ms
      then Inr (sorted_reverse (\<lambda>x. dt_tuple (projr (sort_key_of x))) (map Dict ms))
      else Inl ValueError)"
  unfolding get_all_messages_def first_error_Dict by simp

lemma get_all_messages_Inr:
  assumes "get_all_messages rows = Inr out"
  shows "out = sorted_reverse (\<lambda>x. dt_tuple (projr (sort_key_of x))) rows"
  using assms by (simp add: get_all_messages_def split: option.splits)

lemma get_all_messages_raises:
  assumes "r \<in> set rows" and "sort_key_of r = Inl e"
  shows "\<exists>e'. get_all_messages rows = Inl e'"
proof -
  have "sort_key_of r \<in> set (map sort_key_of rows)" using assms(1) by simp
  then have "first_error (map sort_key_of rows) \<noteq> None"
    using assms(2) by (rule first_error_raises)
  then show ?thesis by (auto simp add: get_all_messages_def)
qed

lemma table_add_message:
  "table (add_message w n m) =
     table w @ [\<lparr>msg_id = next_id (table w), name = n, message = m,
                 timestamp = strftime (wall_clock w)\<rparr>]"
  by (simp add: add_message_def table_insert_def get_pst_time_def)

lemma wall_clock_add_message: "wall_clock (add_message w n m) = wall_clock w"
  by (simp add: add_message_def)

lemma fst_get_update_messages: "fst (get_update_messages w) = w"
  by (simp add: get_update_messages_def Let_def split: sum.splits)

lemma fst_post: "fst (post w n m) = add_message w n m"
  by (simp add: post_def Let_def split: sum.splits)

lemma fst_get: "fst (get w) = w"
  by (simp add: get_def Let_def split: sum.splits)

section \<open>Fragments and handlers\<close>

lemma attrmap_keys:
  "attrmap ''cls'' = ''class''" "attrmap ''id'' = ''id''"
  "attrmap ''hx_get'' = ''hx-get''" "attrmap ''hx_trigger'' = ''hx-trigger''"
  by (simp_all add: attrmap_def)

lemmas tag_defs = Div_def P_def Span_def Small_def ft_hx_def

text \<open>
  Claim C9. \<open>create_message_list\<close> of the empty list is the placeholder: one element
  with one paragraph, whose text is "No messages yet. Be the first to say hi!", never an
  element without children. Of a list that is not empty it is an element with one child
  per message, in the order of the list, and the texts of the child of a message are its
  name (followed by a colon and a blank), its message and its timestamp.
\<close>

theorem create_message_list_fragments:
  "create_message_list [] =
     Tag ''div'' [Tag ''p'' [Text ''No messages yet. Be the first to say hi!''] []]
       [(''id'', AStr ''message-list''), (''class'', AStr ''empty-state'')]
   \<and> children (create_message_list []) \<noteq> []
   \<and> (messages \<noteq> [] \<longrightarrow>
        length (children (create_message_list messages)) = length messages \<and>
        map texts (children (create_message_list messages)) =
          map (\<lambda>msg. [name msg @ '': '', message msg, timestamp msg]) messages)"
  by (simp add: create_message_list_def tag_defs attrmap_keys comp_def)

theorem create_message_list_fragments_witness:
  "length (children (create_message_list [ex_row, ex_row\<lparr>name := ''Bob''\<rparr>])) = 2
   \<and> map texts (children (create_message_list [ex_row, ex_row\<lparr>name := ''Bob''\<rparr>])) =
       [[''Ann: '', ''hi'', ''2024-11-05 09:00:00 AM PST''],
        [''Bob: '', ''hi'', ''2024-11-05 09:00:00 AM PST'']]"
  using create_message_list_fragments [of "[ex_row, ex_row\<lparr>name := ''Bob''\<rparr>]"]
  by (simp add: ex_row_def)

text \<open>
  What the handlers answer: on an empty table the fragment with the counter of 0 and the
  placeholder, on any other table the TypeError of the first subscript.
\<close>

lemma snd_get_update_messages:
  "snd (get_update_messages w) =
     (if table w = [] then
        Inr (Tag ''div'' [create_guest_counter 0, create_message_list []]
               [(''id'', AStr ''update-area''), (''hx-get'', AStr ''/update-messages''),
                (''hx-trigger'', AStr ''every 10s'')])
      else Inl TypeError)"
  by (simp add: get_update_messages_def get_all_messages_table Div_def ft_hx_def attrmap_keys)

lemma snd_post: "snd (post w n m) = Inl TypeError"
  by (simp add: post_def Let_def get_all_messages_table table_add_message)

lemma snd_get:
  assumes "table w \<noteq> []"
  shows "snd (get w) = Inl TypeError"
  using assms by (simp add: get_def get_all_messages_table)

lemma div10_less:
  fixes n :: nat
  assumes "n < 100"
  shows "n div 10 < 10"
  using assms by simp

lemma timestamp_shape_strftime:
  assumes "valid_datetime dt" and "1000 \<le> year dt"
  shows "timestamp_shape (strftime dt)"
proof -
  from assms(1) have "year dt < 10000" by (simp add: valid_datetime_def)
  then have y: "year dt div 1000 < 10" by simp
  from assms(1) have "month dt < 100" "day dt < 100" "minute dt < 100" "second dt < 100"
    using days_in_month_le [of "year dt" "month dt"] by (simp_all add: valid_datetime_def)
  then have f: "month dt div 10 < 10" "day dt div 10 < 10"
    "minute dt div 10 < 10" "second dt div 10 < 10"
    by (simp_all add: div10_less)
  have "hour12 (hour dt) < 100"
    using hour12_range [of "hour dt"] by simp
  then have h: "hour12 (hour dt) div 10 < 10" by (rule div10_less)
  show ?thesis
    using y f h
    by (simp add: timestamp_shape_def strftime_def pad2_def pad4_def am_pm_def digit_char_props)
qed

section \<open>The handlers and the table\<close>

text \<open>
  Claim C10. The handlers of \<^verbatim>\<open>GET /\<close> and \<^verbatim>\<open>GET /update-messages\<close> return the
  world they were given. The handler of \<^verbatim>\<open>POST /submit-message\<close> leaves a table that
  is the old table followed by exactly one new row: the old rows are its first rows,
  unchanged and in their order, and the clock is not touched. No handler removes or
  rewrites a row.
\<close>

theorem handlers_frame:
  "fst (get w) = w
   \<and> fst (get_update_messages w) = w
   \<and> table (fst (post w n m)) =
       table w @ [\<lparr>msg_id = next_id (table w), name = n, message = m,
                   timestamp = strftime (wall_clock w)\<rparr>]
   \<and> take (length (table w)) (table (fst (post w n m))) = table w
   \<and> length (table (fst (post w n m))) = Suc (length (table w))
   \<and> wall_clock (fst (post w n m)) = wall_clock w"
  by (simp add: fst_get fst_get_update_messages fst_post table_add_message
      wall_clock_add_message)

theorem handlers_frame_witness:
  "fst (get ex_world) = ex_world
   \<and> fst (get_update_messages ex_world) = ex_world
   \<and> table (fst (post ex_world ''Bob'' ''yo'')) =
       [ex_row,
        \<lparr>msg_id = 2, name = ''Bob'', message = ''yo'',
          timestamp = ''2024-11-05 02:30:07 PM PST''\<rparr>]"
  using handlers_frame [of ex_world "''Bob''" "''yo''"]
  by (simp add: ex_world_def ex_row_def next_id_def strftime_ex_time)

text \<open>
  Claim C5. The response of \<^verbatim>\<open>GET /update-messages\<close> is a function of the rows of
  the table alone: a second call right after the first returns the same response, and so
  does a call in any world with the same table, whatever its clock reads.
\<close>

theorem get_update_messages_deterministic:
  "snd (get_update_messages (fst (get_update_messages w))) = snd (get_update_messages w)
   \<and> (table w' = table w \<longrightarrow> snd (get_update_messages w') = snd (get_update_messages w))"
  by (simp add: fst_get_update_messages snd_get_update_messages)

theorem get_update_messages_deterministic_witness:
  "table (ex_world\<lparr>wall_clock := ex_time\<lparr>hour := 3\<rparr>\<rparr>) = table ex_world
   \<and> snd (get_update_messages (ex_world\<lparr>wall_clock := ex_time\<lparr>hour := 3\<rparr>\<rparr>)) =
       snd (get_update_messages ex_world)
   \<and> snd (get_update_messages (fst (get_update_messages ex_world))) =
       snd (get_update_messages ex_world)"
  using get_update_messages_deterministic
    [of ex_world "ex_world\<lparr>wall_clock := ex_time\<lparr>hour := 3\<rparr>\<rparr>"]
  by simp

text \<open>
  Claim C2. When a row of the table has a timestamp that \<open>strptime\<close> rejects,
  \<open>get_all_messages\<close> raises on the table, and so does each of the three handlers
  (the submission too: the row is still in the table after the insert). On the table of
  \<^verbatim>\<open>fast_app\<close> the exception is the TypeError of the subscript, which comes before the
  parse; on the same rows as dictionaries it is the ValueError of \<open>strptime\<close>. For any
  list of rows: when the key of one of them raises, \<open>get_all_messages\<close> raises; and
  when it returns a list, the list holds the rows it was given, each as often as it was
  given, so no row is skipped or left out.
\<close>

theorem unparsable_timestamp_fails:
  assumes "x \<in> set (table w)" and "strptime (timestamp x) = None"
  shows "get_all_messages (messages_table w) = Inl TypeError
   \<and> snd (get w) = Inl TypeError
   \<and> snd (get_update_messages w) = Inl TypeError
   \<and> snd (post w n m) = Inl TypeError
   \<and> get_all_messages (map Dict (table w)) = Inl ValueError
   \<and> (r \<in> set rows \<and> sort_key_of r = Inl e \<longrightarrow> (\<exists>e'. get_all_messages rows = Inl e'))
   \<and> (get_all_messages rows = Inr out \<longrightarrow> mset out = mset rows \<and> length out = length rows)"
proof -
  from assms(1) have ne: "table w \<noteq> []" by auto
  from assms have a: "\<not> well_stamped (table w)"
    by (auto simp add: well_stamped_iff)
  have d: "get_all_messages rows = Inr out \<longrightarrow> mset out = mset rows \<and> length out = length rows"
    using get_all_messages_Inr [of rows out]
    by (auto simp add: mset_sorted_reverse length_sorted_reverse)
  have f: "r \<in> set rows \<and> sort_key_of r = Inl e \<longrightarrow> (\<exists>e'. get_all_messages rows = Inl e')"
    using get_all_messages_raises [of r rows e] by blast
  show ?thesis
    using ne a d f
    by (simp add: get_all_messages_table get_all_messages_Dict snd_get snd_get_update_messages
        snd_post)
qed

theorem unparsable_timestamp_fails_witness:
  "ex_row\<lparr>msg_id := 2, timestamp := ''yesterday''\<rparr> \<in> set (table ex_bad_world)
   \<and> strptime (timestamp (ex_row\<lparr>msg_id := 2, timestamp := ''yesterday''\<rparr>)) = None
   \<and> get_all_messages (messages_table ex_bad_world) = Inl TypeError
   \<and> snd (get ex_bad_world) = Inl TypeError
   \<and> snd (get_update_messages ex_bad_world) = Inl TypeError
   \<and> snd (post ex_bad_world ''Bob'' ''yo'') = Inl TypeError
   \<and> get_all_messages (map Dict (table ex_bad_world)) = Inl ValueError
   \<and> Dict (ex_row\<lparr>msg_id := 2, timestamp := ''yesterday''\<rparr>) \<in> set (map Dict (table ex_bad_world))
   \<and> sort_key_of (Dict (ex_row\<lparr>msg_id := 2, timestamp := ''yesterday''\<rparr>)) = Inl ValueError
   \<and> get_all_messages [Dict ex_row] = Inr [Dict ex_row]
   \<and> mset [Dict ex_row] = mset [Dict ex_row]"
proof -
  let ?bad = "ex_row\<lparr>msg_id := 2, timestamp := ''yesterday''\<rparr>"
  have a: "?bad \<in> set (table ex_bad_world)"
    by (simp add: ex_bad_world_def)
  have b: "strptime (timestamp ?bad) = None"
    by (simp add: strptime_yesterday)
  have c: "get_all_messages [Dict ex_row] = Inr [Dict ex_row]"
    using get_all_messages_Dict [of "[ex_row]"] strptime_ex_row
    by (simp add: well_stamped_iff sorted_reverse_def)
  have k: "sort_key_of (Dict ?bad) = Inl ValueError"
    using b by (simp add: sort_key_of_Dict)
  have i: "Dict ?bad \<in> set (map Dict (table ex_bad_world))"
    using a by simp
  show ?thesis
    using unparsable_timestamp_fails [OF a b, of "''Bob''" "''yo''" "Dict ?bad"
        "[Dict ex_row]" ValueError "[Dict ex_row]"] a b c k i
    by simp
qed

text \<open>
  Claim C8. The row that \<open>add_message\<close> appends carries the timestamp
  \<open>strftime\<close> of the reading of the clock of US/Pacific at the call; the name and the
  message submitted have no part in it (two calls in the same world with different
  submissions write the same timestamp). For a reading that is a date from the year 1000
  on, the timestamp has the shape \<^verbatim>\<open>YYYY-MM-DD HH:MM:SS AM/PM PST\<close> and parses back to
  the reading without its microseconds.
\<close>

theorem add_message_timestamp:
  "table (add_message w n m) =
     table w @ [\<lparr>msg_id = next_id (table w), name = n, message = m,
                 timestamp = strftime (get_pst_time w)\<rparr>]
   \<and> get_pst_time w = wall_clock w
   \<and> timestamp (last (table (add_message w n' m'))) = timestamp (last (table (add_message w n m)))
   \<and> (valid_datetime (wall_clock w) \<and> 1000 \<le> year (wall_clock w) \<longrightarrow>
        timestamp_shape (timestamp (last (table (add_message w n m)))) \<and>
        strptime (timestamp (last (table (add_message w n m)))) =
          Some ((wall_clock w)\<lparr>microsecond := 0\<rparr>))"
  by (simp add: table_add_message get_pst_time_def timestamp_shape_strftime strptime_strftime)

theorem add_message_timestamp_witness:
  "valid_datetime (wall_clock ex_world) \<and> 1000 \<le> year (wall_clock ex_world)
   \<and> timestamp (last (table (add_message ex_world ''Bob'' ''yo''))) = ''2024-11-05 02:30:07 PM PST''
   \<and> timestamp_shape (timestamp (last (table (add_message ex_world ''Bob'' ''yo''))))
   \<and> strptime (timestamp (last (table (add_message ex_world ''Bob'' ''yo'')))) =
       Some \<lparr>year = 2024, month = 11, day = 5, hour = 14, minute = 30, second = 7,
             microsecond = 0\<rparr>"
proof -
  have v: "valid_datetime (wall_clock ex_world)" "1000 \<le> year (wall_clock ex_world)"
    using valid_ex_time by (simp_all add: ex_world_def)
  have t: "timestamp (last (table (add_message ex_world ''Bob'' ''yo''))) =
      ''2024-11-05 02:30:07 PM PST''"
    by (simp add: table_add_message ex_world_def strftime_ex_time)
  have e: "(wall_clock ex_world)\<lparr>microsecond := 0\<rparr> =
      \<lparr>year = 2024, month = 11, day = 5, hour = 14, minute = 30, second = 7, microsecond = 0\<rparr>"
    by (simp add: ex_world_def ex_time_def)
  show ?thesis
    using add_message_timestamp [of ex_world "''Bob''" "''yo''" "''Bob''" "''yo''"] v t e
    by simp
qed

section \<open>Ids\<close>

lemma msg_id_less_next_id:
  assumes "x \<in> set rows"
  shows "msg_id x < next_id rows"
proof -
  have "msg_id x \<le> Max (set (map msg_id rows))"
    using assms by (intro Max_ge) auto
  moreover have "rows \<noteq> []" using assms by auto
  ultimately show ?thesis by (simp add: next_id_def)
qed

lemma insert_all_rows:
  "\<exists>new. table (insert_all w reqs) = table w @ new
     \<and> map (\<lambda>r. (name r, message r)) new = map snd reqs
     \<and> sorted_wrt (<) (map msg_id new)
     \<and> (\<forall>x \<in> set (table w). \<forall>y \<in> set new. msg_id x < msg_id y)"
proof (induction reqs arbitrary: w)
  case Nil
  show ?case by simp
next
  case (Cons req reqs)
  obtain t n m where req: "req = (t, n, m)" by (cases req) auto
  let ?w1 = "add_message (w\<lparr>wall_clock := t\<rparr>) n m"
  let ?row = "\<lparr>msg_id = next_id (table w), name = n, message = m, timestamp = strftime t\<rparr>"
  have t1: "table ?w1 = table w @ [?row]"
    by (simp add: table_add_message)
  from Cons.IH [of ?w1] obtain new where
    a: "table (insert_all ?w1 reqs) = table ?w1 @ new"
    and b: "map (\<lambda>r. (name r, message r)) new = map snd reqs"
    and c: "sorted_wrt (<) (map msg_id new)"
    and d: "\<forall>x \<in> set (table ?w1). \<forall>y \<in> set new. msg_id x < msg_id y"
    by blast
  have e: "\<forall>x \<in> set (table w). msg_id x < msg_id ?row"
    by (simp add: msg_id_less_next_id)
  have "table (insert_all w (req # reqs)) = table w @ (?row # new)"
    using a t1 by (simp add: req)
  moreover have "map (\<lambda>r. (name r, message r)) (?row # new) = map snd (req # reqs)"
    using b by (simp add: req)
  moreover have "sorted_wrt (<) (map msg_id (?row # new))"
    using c d t1 by simp
  moreover have "\<forall>x \<in> set (table w). \<forall>y \<in> set (?row # new). msg_id x < msg_id y"
    using d e t1 by auto
  ultimately show ?case by blast
qed

text \<open>
  Claim C6. A run of calls of \<open>add_message\<close>, the clock set anew before each, leaves
  the old rows where they were and appends one row per call, in the order of the calls
  (the names and messages are those submitted, in that order). The ids of the new rows are
  strictly increasing, hence pairwise different, and each is greater than every id the
  table held before, so no id is given twice; when the ids of the old rows were pairwise
  different, so are the ids of the whole table.
\<close>

theorem insert_ids_increasing:
  "\<exists>new. table (insert_all w reqs) = table w @ new
     \<and> map (\<lambda>r. (name r, message r)) new = map snd reqs
     \<and> sorted_wrt (<) (map msg_id new)
     \<and> distinct (map msg_id new)
     \<and> (\<forall>x \<in> set (table w). \<forall>y \<in> set new. msg_id x < msg_id y)
     \<and> (distinct (map msg_id (table w)) \<longrightarrow> distinct (map msg_id (table (insert_all w reqs))))"
proof -
  obtain new where
    a: "table (insert_all w reqs) = table w @ new"
    and b: "map (\<lambda>r. (name r, message r)) new = map snd reqs"
    and c: "sorted_wrt (<) (map msg_id new)"
    and d: "\<forall>x \<in> set (table w). \<forall>y \<in> set new. msg_id x < msg_id y"
    using insert_all_rows [of w reqs] by blast
  have e: "distinct (map msg_id new)"
    using c strict_sorted_iff by blast
  have "distinct (map msg_id (table w @ new))" if "distinct (map msg_id (table w))"
    using that e d by fastforce
  then show ?thesis using a b c d e by auto
qed

theorem insert_ids_increasing_witness:
  "map msg_id (table (insert_all ex_world
      [(ex_time, ''Bob'', ''yo''), (ex_time, [], []), (ex_time, ''Cy'', ''hey'')])) = [1, 2, 3, 4]
   \<and> map name (table (insert_all ex_world
      [(ex_time, ''Bob'', ''yo''), (ex_time, [], []), (ex_time, ''Cy'', ''hey'')])) =
      [''Ann'', ''Bob'', [], ''Cy'']
   \<and> distinct (map msg_id (table ex_world))
   \<and> distinct (map msg_id (table (insert_all ex_world
      [(ex_time, ''Bob'', ''yo''), (ex_time, [], []), (ex_time, ''Cy'', ''hey'')])))"
  using insert_ids_increasing [of ex_world
      "[(ex_time, ''Bob'', ''yo''), (ex_time, [], []), (ex_time, ''Cy'', ''hey'')]"]
  by (simp add: table_add_message next_id_def ex_world_def ex_row_def)

section \<open>Escaping\<close>

lemma escape_char_safe:
  "c' \<in> set (escape_char c) \<Longrightarrow>
     c' \<noteq> CHR ''<'' \<and> c' \<noteq> CHR ''>'' \<and> c' \<noteq> CHR 0x22 \<and> c' \<noteq> CHR 0x27"
  by (auto simp add: escape_char_def split: if_splits)

lemma html_escape_safe:
  "c' \<in> set (html_escape s) \<Longrightarrow>
     c' \<noteq> CHR ''<'' \<and> c' \<noteq> CHR ''>'' \<and> c' \<noteq> CHR 0x22 \<and> c' \<noteq> CHR 0x27"
  using escape_char_safe by (auto simp add: html_escape_def)

lemma html_escape_script:
  "html_escape ''<script>alert(1)</script>: '' = ''&lt;script&gt;alert(1)&lt;/script&gt;: ''"
  by (simp add: html_escape_def escape_char_def)

text \<open>
  Claim C7. The serialised list of a non-empty sequence of messages is the markup of the
  elements with, in the place of each name (followed by a colon and a blank), message and
  timestamp, the value passed through \<open>html_escape\<close>. No character of an escaped text is
  one of \<^verbatim>\<open>< > " '\<close>, so the text of a message opens or closes no tag and ends no
  attribute. The name \<^verbatim>\<open><script>alert(1)</script>\<close> is written as
  \<^verbatim>\<open>&lt;script&gt;alert(1)&lt;/script&gt;\<close>.
\<close>

theorem message_list_escapes_text:
  "(messages \<noteq> [] \<longrightarrow>
     to_xml (create_message_list messages) =
       ''<div'' @ to_attr (''id'', AStr ''message-list'') @
         to_attr (''class'', AStr ''message-list'') @ ''>'' @
       concat (map (\<lambda>msg.
         ''<div'' @ to_attr (''class'', AStr ''message'') @ ''>'' @
         ''<div'' @ to_attr (''class'', AStr ''message-content'') @ ''>'' @
         ''<span'' @ to_attr (''class'', AStr ''message-name'') @ ''>'' @
           html_escape (name msg @ '': '') @ ''</span>'' @
         ''<span'' @ to_attr (''class'', AStr ''message-text'') @ ''>'' @
           html_escape (message msg) @ ''</span>'' @
         ''<small'' @ to_attr (''class'', AStr ''message-timestamp'') @ ''>'' @
           html_escape (timestamp msg) @ ''</small>'' @
         ''</div></div>'') messages) @
       ''</div>'')
   \<and> (\<forall>c \<in> set (html_escape s).
         c \<noteq> CHR ''<'' \<and> c \<noteq> CHR ''>'' \<and> c \<noteq> CHR 0x22 \<and> c \<noteq> CHR 0x27)
   \<and> html_escape ''<script>alert(1)</script>: '' = ''&lt;script&gt;alert(1)&lt;/script&gt;: ''"
proof -
  have "to_xml (create_message_list messages) =
       ''<div'' @ to_attr (''id'', AStr ''message-list'') @
         to_attr (''class'', AStr ''message-list'') @ ''>'' @
       concat (map (\<lambda>msg.
         ''<div'' @ to_attr (''class'', AStr ''message'') @ ''>'' @
         ''<div'' @ to_attr (''class'', AStr ''message-content'') @ ''>'' @
         ''<span'' @ to_attr (''class'', AStr ''message-name'') @ ''>'' @
           html_escape (name msg @ '': '') @ ''</span>'' @
         ''<span'' @ to_attr (''class'', AStr ''message-text'') @ ''>'' @
           html_escape (message msg) @ ''</span>'' @
         ''<small'' @ to_attr (''class'', AStr ''message-timestamp'') @ ''>'' @
           html_escape (timestamp msg) @ ''</small>'' @
         ''</div></div>'') messages) @
       ''</div>''" if "messages \<noteq> []"
    using that
    by (simp add: create_message_list_def tag_defs attrmap_keys comp_def)
  then show ?thesis
    using html_escape_safe [of _ s] html_escape_script by blast
qed

theorem message_list_escapes_text_witness:
  "to_xml (create_message_list [ex_script_row]) =
     ''<div'' @ to_attr (''id'', AStr ''message-list'') @
       to_attr (''class'', AStr ''message-list'') @ ''>'' @
     ''<div'' @ to_attr (''class'', AStr ''message'') @ ''>'' @
     ''<div'' @ to_attr (''class'', AStr ''message-content'') @ ''>'' @
     ''<span'' @ to_attr (''class'', AStr ''message-name'') @ ''>'' @
       ''&lt;script&gt;alert(1)&lt;/script&gt;: '' @ ''</span>'' @
     ''<span'' @ to_attr (''class'', AStr ''message-text'') @ ''>'' @ ''hi'' @ ''</span>'' @
     ''<small'' @ to_attr (''class'', AStr ''message-timestamp'') @ ''>'' @
       ''2024-11-05 09:00:00 AM PST'' @ ''</small>'' @
     ''</div></div>'' @ ''</div>''
   \<and> CHR ''<'' \<notin> set (html_escape (name ex_script_row))
   \<and> CHR ''>'' \<notin> set (html_escape (name ex_script_row))"
proof -
  have e: "html_escape ''hi'' = ''hi''"
    "html_escape ''2024-11-05 09:00:00 AM PST'' = ''2024-11-05 09:00:00 AM PST''"
    by (simp_all add: html_escape_def escape_char_def)
  show ?thesis
    using message_list_escapes_text [of "[ex_script_row]" "name ex_script_row"]
    by (auto simp add: ex_script_row_def e)
qed

section \<open>The read of a table that is not empty\<close>

lemma list_of_single_mset:
  assumes "mset ys = {#z#}"
  shows "ys = [z]"
  using assms by simp

lemma filter_own_key:
  fixes f :: "'a \<Rightarrow> 'k::linorder"
  assumes "sorted_wrt (\<lambda>a b. f a < f b) ys" and "z \<in> set ys"
  shows "filter (\<lambda>x. f z = f x) ys = [z]"
  using assms
proof (induction ys)
  case Nil
  then show ?case by simp
next
  case (Cons y ys)
  have above: "\<forall>b \<in> set ys. f y < f b" using Cons.prems(1) by simp
  show ?case
  proof (cases "z \<in> set ys")
    case True
    then have "f y < f z" using above by simp
    then have "f z \<noteq> f y" by simp
    moreover have "filter (\<lambda>x. f z = f x) ys = [z]"
      using Cons.IH Cons.prems(1) True by simp
    ultimately show ?thesis by simp
  next
    case False
    then have z: "z = y" using Cons.prems(2) by simp
    have "filter (\<lambda>x. f y = f x) ys = []"
      using above by (auto simp add: filter_empty_conv)
    then show ?thesis using z by simp
  qed
qed

lemma sorted_reverse_strict:
  assumes s: "sorted_wrt (\<lambda>a b. f a < f b) ys" and p: "mset xs = mset ys"
  shows "sorted_reverse f xs = rev ys"
proof -
  have "sort_key f (rev xs) = ys"
  proof (rule properties_for_sort_key)
    show "mset ys = mset (rev xs)" using p by simp
    have "sorted_wrt (\<lambda>a b. f a \<le> f b) ys"
      using s by (rule sorted_wrt_mono_rel [rotated]) simp
    then show "sorted (map f ys)" by (simp only: sorted_map)
    show "filter (\<lambda>x. f z = f x) ys = filter (\<lambda>x. f z = f x) (rev xs)"
      if "z \<in> set ys" for z
    proof -
      have one: "filter (\<lambda>x. f z = f x) ys = [z]"
        using s that by (rule filter_own_key)
      have "mset (filter (\<lambda>x. f z = f x) (rev xs)) = mset (filter (\<lambda>x. f z = f x) ys)"
        using p by (simp only: mset_filter mset_rev)
      then have "mset (filter (\<lambda>x. f z = f x) (rev xs)) = {#z#}"
        by (simp only: one) simp
      then have "filter (\<lambda>x. f z = f x) (rev xs) = [z]"
        by (rule list_of_single_mset)
      then show ?thesis using one by simp
    qed
  qed
  then show ?thesis by (simp add: sorted_reverse_def)
qed

lemma timestamps_insert_all:
  "map timestamp (table (insert_all w reqs)) =
     map timestamp (table w) @ map (\<lambda>r. strftime (fst r)) reqs"
proof (induction reqs arbitrary: w)
  case Nil
  show ?case by simp
next
  case (Cons req reqs)
  obtain t n m where req: "req = (t, n, m)" by (cases req) auto
  show ?case
    by (simp add: req Cons.IH table_add_message)
qed

lemma newest_first_dicts:
  assumes e: "table w = []"
    and v: "\<forall>r \<in> set reqs. valid_datetime (fst r) \<and> 1000 \<le> year (fst r)"
    and s: "sorted_wrt (<) (map (\<lambda>r. dt_tuple ((fst r)\<lparr>microsecond := 0\<rparr>)) reqs)"
  shows "get_all_messages (map Dict (table (insert_all w reqs))) =
     Inr (map Dict (rev (table (insert_all w reqs))))"
proof -
  let ?T = "table (insert_all w reqs)"
  let ?f = "\<lambda>x. dt_tuple (projr (sort_key_of x))"
  have ts: "map timestamp ?T = map (\<lambda>r. strftime (fst r)) reqs"
    using e by (simp add: timestamps_insert_all)
  have parse: "strptime (strftime (fst r)) = Some ((fst r)\<lparr>microsecond := 0\<rparr>)"
    if "r \<in> set reqs" for r
    using v that by (simp add: strptime_strftime)
  have "strptime (timestamp x) \<noteq> None" if "x \<in> set ?T" for x
  proof -
    have "timestamp x \<in> set (map timestamp ?T)" using that by simp
    then obtain r where "r \<in> set reqs" and "timestamp x = strftime (fst r)"
      unfolding ts by auto
    then show ?thesis using parse by simp
  qed
  then have ws: "well_stamped ?T" by (simp add: well_stamped_iff)
  then have g: "get_all_messages (map Dict ?T) = Inr (sorted_reverse ?f (map Dict ?T))"
    by (simp add: get_all_messages_Dict)
  have key: "?f (Dict d) = dt_tuple (the (strptime (timestamp d)))" if "d \<in> set ?T" for d
    using ws that by (auto simp add: well_stamped_iff sort_key_of_Dict)
  have "map ?f (map Dict ?T) = map (\<lambda>d. dt_tuple (the (strptime (timestamp d)))) ?T"
    using key by simp
  also have "\<dots> = map (\<lambda>ts. dt_tuple (the (strptime ts))) (map timestamp ?T)"
    by simp
  also have "\<dots> = map (\<lambda>r. dt_tuple (the (strptime (strftime (fst r))))) reqs"
    by (simp only: ts) simp
  also have "\<dots> = map (\<lambda>r. dt_tuple ((fst r)\<lparr>microsecond := 0\<rparr>)) reqs"
    using parse by (intro map_cong) auto
  finally have "sorted_wrt (<) (map ?f (map Dict ?T))" using s by simp
  then have "sorted_wrt (\<lambda>a b. ?f a < ?f b) (map Dict ?T)"
    by (simp only: sorted_wrt_map)
  then have "sorted_reverse ?f (map Dict ?T) = rev (map Dict ?T)"
    by (rule sorted_reverse_strict) simp
  then show ?thesis using g by (simp add: rev_map)
qed

lemma table_ex_reqs:
  "table (insert_all ex_empty_world ex_reqs) =
     [\<lparr>msg_id = 1, name = ''Ann'', message = ''one'', timestamp = ''2024-11-05 02:30:07 PM PST''\<rparr>,
      \<lparr>msg_id = 2, name = ''Bob'', message = ''two'', timestamp = ''2024-11-05 02:30:08 PM PST''\<rparr>,
      \<lparr>msg_id = 3, name = ''Cy'', message = ''three'', timestamp = ''2024-11-05 02:31:07 PM PST''\<rparr>]"
  by (simp add: ex_reqs_def ex_empty_world_def table_add_message next_id_def ex_time_def
      strftime_defs)

text \<open>
  Claim C1 does not hold of the code. After one or more submissions, whatever they are,
  \<open>get_all_messages\<close> on the table of \<^verbatim>\<open>fast_app\<close> raises TypeError and returns no
  list: the rows are instances of the dataclass, and the key of the sort subscripts them.
  So it is for the three submissions \<open>ex_reqs\<close> of Ann, Bob and Cy, made into an empty
  guestbook in three different seconds. On the same three rows as dictionaries the
  function returns the rows of Cy, Bob and Ann, the latest first.
\<close>

theorem get_all_messages_raises_on_table:
  "get_all_messages (messages_table (insert_all w (req # reqs))) = Inl TypeError
   \<and> map name (table (insert_all ex_empty_world ex_reqs)) = [''Ann'', ''Bob'', ''Cy'']
   \<and> map timestamp (table (insert_all ex_empty_world ex_reqs)) =
       [''2024-11-05 02:30:07 PM PST'', ''2024-11-05 02:30:08 PM PST'',
        ''2024-11-05 02:31:07 PM PST'']
   \<and> get_all_messages (messages_table (insert_all ex_empty_world ex_reqs)) = Inl TypeError
   \<and> get_all_messages (map Dict (table (insert_all ex_empty_world ex_reqs))) =
       Inr (map Dict (rev (table (insert_all ex_empty_world ex_reqs))))"
proof -
  have "map timestamp (table (insert_all w (req # reqs))) \<noteq> []"
    by (simp only: timestamps_insert_all) simp
  then have "table (insert_all w (req # reqs)) \<noteq> []" by auto
  then have a: "get_all_messages (messages_table (insert_all w (req # reqs))) = Inl TypeError"
    by (simp add: get_all_messages_table)
  have b: "get_all_messages (messages_table (insert_all ex_empty_world ex_reqs)) = Inl TypeError"
    by (simp add: get_all_messages_table table_ex_reqs)
  have e: "table ex_empty_world = []" by (simp add: ex_empty_world_def)
  have v: "\<forall>r \<in> set ex_reqs. valid_datetime (fst r) \<and> 1000 \<le> year (fst r)"
    by (simp add: ex_reqs_def ex_time_def valid_datetime_def days_in_month_def)
  have s: "sorted_wrt (<) (map (\<lambda>r. dt_tuple ((fst r)\<lparr>microsecond := 0\<rparr>)) ex_reqs)"
    by (simp add: ex_reqs_def ex_time_def dt_tuple_def)
  have c: "get_all_messages (map Dict (table (insert_all ex_empty_world ex_reqs))) =
       Inr (map Dict (rev (table (insert_all ex_empty_world ex_reqs))))"
    using e v s by (rule newest_first_dicts)
  have n: "map name (table (insert_all ex_empty_world ex_reqs)) = [''Ann'', ''Bob'', ''Cy'']"
    "map timestamp (table (insert_all ex_empty_world ex_reqs)) =
       [''2024-11-05 02:30:07 PM PST'', ''2024-11-05 02:30:08 PM PST'',
        ''2024-11-05 02:31:07 PM PST'']"
    by (simp_all add: table_ex_reqs)
  show ?thesis using a b c n by simp
qed

text \<open>
  Claim C3 does not hold of the code. The handler of \<^verbatim>\<open>POST /submit-message\<close> appends
  the row with exactly the submitted name and message, whatever the two strings are, and
  then raises TypeError out of the read that follows the insert; a read of the table it
  leaves raises the same. For two empty strings sent to an empty guestbook, the table
  holds the row with the two empty fields afterwards, and the request has failed.
\<close>

theorem post_stores_then_raises:
  "table (fst (post w n m)) =
     table w @ [\<lparr>msg_id = next_id (table w), name = n, message = m,
                 timestamp = strftime (wall_clock w)\<rparr>]
   \<and> snd (post w n m) = Inl TypeError
   \<and> get_all_messages (messages_table (fst (post w n m))) = Inl TypeError
   \<and> table (fst (post ex_empty_world [] [])) =
       [\<lparr>msg_id = 1, name = [], message = [], timestamp = ''2024-11-05 02:30:07 PM PST''\<rparr>]"
  by (simp add: fst_post snd_post get_all_messages_table table_add_message ex_empty_world_def
      next_id_def strftime_ex_time)

text \<open>
  Claim C4 does not hold of the code. The handler of \<^verbatim>\<open>POST /submit-message\<close> raises
  TypeError, and so does the handler of \<^verbatim>\<open>GET /update-messages\<close> in the world the
  insert leaves, whose table is not empty: the two responses are equal, and neither is
  the container with the counter and the list.
\<close>

theorem post_and_refresh_raise:
  "snd (post w n m) = Inl TypeError
   \<and> snd (get_update_messages (add_message w n m)) = Inl TypeError
   \<and> snd (post w n m) = snd (get_update_messages (add_message w n m))
   \<and> table (add_message w n m) \<noteq> []"
  by (simp add: snd_post snd_get_update_messages table_add_message)

end
